theory Spec2Isabelle
  imports Complex_Main "HOL-Library.Log_Nat"
begin

section \<open>JavaScript values\<close>

text \<open>
  The store in \<^verbatim>\<open>src/index.ts\<close> moves values of TypeScript type \<^verbatim>\<open>any\<close> between records and
  the cells of a sheet. The values the code can tell apart are modelled by \<open>jsval\<close>:
  \<^verbatim>\<open>undefined\<close>, \<^verbatim>\<open>null\<close>, booleans, numbers and strings (nested objects and arrays as
  field values are left out). A number is a binary64 double: \<^verbatim>\<open>NaN\<close>, an infinity,
  \<open>-0\<close> (\<open>NegZero\<close>), or \<open>Num r\<close> with \<open>r\<close> the exact value of the double (\<open>Num 0\<close> is
  \<open>+0\<close>); \<open>toDouble\<close> below rounds a real value to the nearest double. A string is the
  list of the bytes of its UTF-8 encoding: an ASCII character is one byte, the no-break
  space U+00A0 is the two bytes \<open>C2 A0\<close>, the line separator U+2028 the three bytes
  \<open>E2 80 A8\<close>.
\<close>

datatype jsnum = NaN | Num rat | NegZero | PosInfinity | NegInfinity

datatype jsval = JUndefined | JNull | JBool bool | JNumber jsnum | JString string

text \<open>
  \<^verbatim>\<open>a === b\<close>: equal values of one type, except that \<^verbatim>\<open>NaN\<close> equals nothing and the two
  zeros equal each other.
\<close>

definition strictEq :: "jsval \<Rightarrow> jsval \<Rightarrow> bool" where
  "strictEq a b =
     ((a = b \<and> a \<noteq> JNumber NaN)
      \<or> ((a = JNumber (Num 0) \<or> a = JNumber NegZero) \<and> (b = JNumber (Num 0) \<or> b = JNumber NegZero)))"

fun typeof :: "jsval \<Rightarrow> string" where
  "typeof JUndefined = ''undefined''"
| "typeof JNull = ''object''"
| "typeof (JBool b) = ''boolean''"
| "typeof (JNumber n) = ''number''"
| "typeof (JString s) = ''string''"

text \<open>Truthiness, as \<^verbatim>\<open>||\<close> and \<^verbatim>\<open>if\<close> read a value.\<close>

fun truthy :: "jsval \<Rightarrow> bool" where
  "truthy JUndefined = False"
| "truthy JNull = False"
| "truthy (JBool b) = b"
| "truthy (JNumber n) = (n \<noteq> NaN \<and> n \<noteq> Num 0 \<and> n \<noteq> NegZero)"
| "truthy (JString s) = (s \<noteq> [])"

definition logicalOr :: "jsval \<Rightarrow> jsval \<Rightarrow> jsval" where
  "logicalOr a b = (if truthy a then a else b)"

subsection \<open>\<^verbatim>\<open>Number(val)\<close>\<close>

text \<open>
  \<^verbatim>\<open>Number\<close> applied to a string follows the StringToNumber grammar of the language:
  white space is trimmed at both ends; nothing left is \<open>+0\<close>; otherwise the text is a
  binary, octal or hexadecimal integer literal (\<^verbatim>\<open>0b\<close>, \<^verbatim>\<open>0o\<close>, \<^verbatim>\<open>0x\<close>, unsigned) or a
  decimal literal with an optional sign, fraction and exponent, or a signed
  \<^verbatim>\<open>Infinity\<close>; any other text is \<^verbatim>\<open>NaN\<close>. The value of a literal is rounded to the
  nearest double, ties to even, and to an infinity past the largest double.

  White space is the language's StrWhiteSpaceChar: the white space characters (tab,
  vertical tab, form feed, the byte order mark U+FEFF and the space separators of
  Unicode) and the line terminators (line feed, carriage return, U+2028, U+2029), each
  in its UTF-8 encoding.
\<close>

definition whiteSpace :: "string list" where
  "whiteSpace =
     [[CHR 0x09], [CHR 0x0A], [CHR 0x0B], [CHR 0x0C], [CHR 0x0D], [CHR 0x20],
      [CHR 0xC2, CHR 0xA0],
      [CHR 0xE1, CHR 0x9A, CHR 0x80],
      [CHR 0xE2, CHR 0x80, CHR 0x80], [CHR 0xE2, CHR 0x80, CHR 0x81], [CHR 0xE2, CHR 0x80, CHR 0x82],
      [CHR 0xE2, CHR 0x80, CHR 0x83], [CHR 0xE2, CHR 0x80, CHR 0x84], [CHR 0xE2, CHR 0x80, CHR 0x85],
      [CHR 0xE2, CHR 0x80, CHR 0x86], [CHR 0xE2, CHR 0x80, CHR 0x87], [CHR 0xE2, CHR 0x80, CHR 0x88],
      [CHR 0xE2, CHR 0x80, CHR 0x89], [CHR 0xE2, CHR 0x80, CHR 0x8A],
      [CHR 0xE2, CHR 0x80, CHR 0xA8], [CHR 0xE2, CHR 0x80, CHR 0xA9], [CHR 0xE2, CHR 0x80, CHR 0xAF],
      [CHR 0xE2, CHR 0x81, CHR 0x9F],
      [CHR 0xE3, CHR 0x80, CHR 0x80],
      [CHR 0xEF, CHR 0xBB, CHR 0xBF]]"

text \<open>\<open>dropLeading ws s\<close> removes from the front of \<open>s\<close> every leading occurrence of a text of \<open>ws\<close>.\<close>

function dropLeading :: "string list \<Rightarrow> string \<Rightarrow> string" where
  "dropLeading ws [] = []"
| "dropLeading ws (c # cs) =
     (case List.find (\<lambda>w. w \<noteq> [] \<and> take (length w) (c # cs) = w) ws of
        None \<Rightarrow> c # cs
      | Some w \<Rightarrow> dropLeading ws (drop (length w) (c # cs)))"
  by pat_completeness auto
termination
proof (relation "measure (\<lambda>(ws, s). length s)")
  show "wf (measure (\<lambda>(ws, s). length s))" by simp
next
  fix ws :: "string list" and c :: char and cs w :: string
  assume "List.find (\<lambda>w. w \<noteq> [] \<and> take (length w) (c # cs) = w) ws = Some w"
  then have "w \<noteq> []" by (auto simp: find_Some_iff)
  then show "((ws, drop (length w) (c # cs)), (ws, c # cs)) \<in> measure (\<lambda>(ws, s). length s)"
    by (cases w) simp_all
qed

declare dropLeading.simps [simp del]

definition trimString :: "string \<Rightarrow> string" where
  "trimString s = rev (dropLeading (map rev whiteSpace) (rev (dropLeading whiteSpace s)))"

text \<open>
  Rounding a positive real to a double. \<open>floorLog2 r\<close> is the exponent \<open>e\<close> with
  \<open>2 ^ e \<le> r < 2 ^ (e + 1)\<close>; below \<open>2 ^ -1022\<close> the doubles are subnormal and keep the
  spacing \<open>2 ^ -1074\<close>. With \<open>n\<close> the multiple of the spacing nearest to \<open>r\<close> (ties to
  even), the double is \<open>n\<close> times the spacing, and an infinity when exponent field and
  fraction together pass the largest finite pattern.
\<close>

definition pow2 :: "int \<Rightarrow> rat" where
  "pow2 k = (if 0 \<le> k then 2 ^ nat k else 1 / 2 ^ nat (- k))"

definition floorLog2 :: "rat \<Rightarrow> int" where
  "floorLog2 r =
     (case quotient_of r of
        (p, q) \<Rightarrow> let d = bitlen p - bitlen q in if pow2 d \<le> r then d else d - 1)"

definition roundHalfEven :: "rat \<Rightarrow> int" where
  "roundHalfEven x =
     (let n = \<lfloor>x\<rfloor>; d = x - of_int n in
      if d < 1 / 2 then n else if 1 / 2 < d then n + 1 else if even n then n else n + 1)"

definition toDouble :: "rat \<Rightarrow> jsnum" where
  "toDouble r =
     (if r \<le> 0 then Num 0
      else
        let e = max (floorLog2 r) (- 1022);
            n = roundHalfEven (r / pow2 (e - 52))
        in if 2047 * 2 ^ 52 \<le> (e + 1022) * 2 ^ 52 + n then PosInfinity
           else Num (of_int n * pow2 (e - 52)))"

definition digitValue :: "char \<Rightarrow> int option" where
  "digitValue c =
     (let n = (of_char c :: int) in
      if 48 \<le> n \<and> n \<le> 57 then Some (n - 48)
      else if 97 \<le> n \<and> n \<le> 102 then Some (n - 87)
      else if 65 \<le> n \<and> n \<le> 70 then Some (n - 55)
      else None)"

fun digitsValue :: "int \<Rightarrow> string \<Rightarrow> int \<Rightarrow> int option" where
  "digitsValue b [] acc = Some acc"
| "digitsValue b (c # cs) acc =
     (case digitValue c of
        None \<Rightarrow> None
      | Some d \<Rightarrow> if d < b then digitsValue b cs (acc * b + d) else None)"

text \<open>One or more digits of base \<open>b\<close>, and nothing else.\<close>

definition digits :: "int \<Rightarrow> string \<Rightarrow> int option" where
  "digits b s = (if s = [] then None else digitsValue b s 0)"

definition isDecimalDigit :: "char \<Rightarrow> bool" where
  "isDecimalDigit c = (48 \<le> (of_char c :: int) \<and> (of_char c :: int) \<le> 57)"

definition decimalValue :: "string \<Rightarrow> int" where
  "decimalValue s = foldl (\<lambda>a c. a * 10 + ((of_char c :: int) - 48)) 0 s"

definition scale10 :: "rat \<Rightarrow> int \<Rightarrow> rat" where
  "scale10 m e = (if 0 \<le> e then m * 10 ^ nat e else m / 10 ^ nat (- e))"

definition ExponentPart :: "string \<Rightarrow> int option" where
  "ExponentPart s =
     (case s of
        [] \<Rightarrow> None
      | c # ds \<Rightarrow>
          if c = CHR ''+'' then digits 10 ds
          else if c = CHR ''-'' then map_option uminus (digits 10 ds)
          else digits 10 s)"

definition StrUnsignedDecimalLiteral :: "string \<Rightarrow> jsnum" where
  "StrUnsignedDecimalLiteral s =
     (if s = ''Infinity'' then PosInfinity
      else
        let ip = takeWhile isDecimalDigit s;
            r1 = dropWhile isDecimalDigit s;
            hasDot = (r1 \<noteq> [] \<and> hd r1 = CHR ''.'');
            fp = (if hasDot then takeWhile isDecimalDigit (tl r1) else []);
            r2 = (if hasDot then dropWhile isDecimalDigit (tl r1) else r1);
            mant = of_int (decimalValue ip) + of_int (decimalValue fp) / 10 ^ length fp
        in if ip = [] \<and> fp = [] then NaN
           else if r2 = [] then toDouble mant
           else if hd r2 = CHR ''e'' \<or> hd r2 = CHR ''E'' then
             (case ExponentPart (tl r2) of None \<Rightarrow> NaN | Some e \<Rightarrow> toDouble (scale10 mant e))
           else NaN)"

fun negate :: "jsnum \<Rightarrow> jsnum" where
  "negate NaN = NaN"
| "negate (Num r) = (if r = 0 then NegZero else Num (- r))"
| "negate NegZero = Num 0"
| "negate PosInfinity = NegInfinity"
| "negate NegInfinity = PosInfinity"

definition StrDecimalLiteral :: "string \<Rightarrow> jsnum" where
  "StrDecimalLiteral s =
     (case s of
        [] \<Rightarrow> NaN
      | c # cs \<Rightarrow>
          if c = CHR ''+'' then StrUnsignedDecimalLiteral cs
          else if c = CHR ''-'' then negate (StrUnsignedDecimalLiteral cs)
          else StrUnsignedDecimalLiteral s)"

definition NonDecimalIntegerLiteral :: "string \<Rightarrow> int option" where
  "NonDecimalIntegerLiteral s =
     (case s of
        c0 # c1 # ds \<Rightarrow>
          if c0 \<noteq> CHR ''0'' then None
          else if c1 = CHR ''x'' \<or> c1 = CHR ''X'' then digits 16 ds
          else if c1 = CHR ''o'' \<or> c1 = CHR ''O'' then digits 8 ds
          else if c1 = CHR ''b'' \<or> c1 = CHR ''B'' then digits 2 ds
          else None
      | _ \<Rightarrow> None)"

definition StringToNumber :: "string \<Rightarrow> jsnum" where
  "StringToNumber s =
     (let t = trimString s in
      if t = [] then Num 0
      else case NonDecimalIntegerLiteral t of
             Some n \<Rightarrow> toDouble (of_int n)
           | None \<Rightarrow> StrDecimalLiteral t)"

fun Number :: "jsval \<Rightarrow> jsnum" where
  "Number JUndefined = NaN"
| "Number JNull = Num 0"
| "Number (JBool b) = Num (if b then 1 else 0)"
| "Number (JNumber n) = n"
| "Number (JString s) = StringToNumber s"

definition isNaN :: "jsnum \<Rightarrow> bool" where
  "isNaN n = (n = NaN)"

subsection \<open>Objects and arrays\<close>

text \<open>
  An object is the list of its own properties in the order they were created. A name
  occurs once. Reading a name the object does not have gives \<^verbatim>\<open>undefined\<close>; writing an
  existing name keeps its place, a new name goes last.

  \<^verbatim>\<open>for ... in\<close>, \<^verbatim>\<open>Object.keys\<close> and the spread of an object do not enumerate the
  properties in the order of creation: the names that are array indices come first, in
  ascending numeric order, and the other names follow in the order of creation.
  \<open>forInOrder\<close> is that order. An array index is the decimal numeral of a whole number
  below \<open>2 ^ 32 - 1\<close>, written without sign and without a leading zero.
\<close>

type_synonym jsobject = "(string \<times> jsval) list"

definition arrayIndex :: "string \<Rightarrow> int option" where
  "arrayIndex k =
     (if k \<noteq> [] \<and> list_all isDecimalDigit k \<and> (hd k \<noteq> CHR ''0'' \<or> length k = 1)
         \<and> decimalValue k < 2 ^ 32 - 1
      then Some (decimalValue k) else None)"

definition forInOrder :: "(string \<times> 'v) list \<Rightarrow> (string \<times> 'v) list" where
  "forInOrder obj =
     sort_key (\<lambda>p. the (arrayIndex (fst p))) (filter (\<lambda>p. arrayIndex (fst p) \<noteq> None) obj)
     @ filter (\<lambda>p. arrayIndex (fst p) = None) obj"

definition getProp :: "jsobject \<Rightarrow> string \<Rightarrow> jsval" where
  "getProp obj k = (case map_of obj k of None \<Rightarrow> JUndefined | Some v \<Rightarrow> v)"

fun setProp :: "jsobject \<Rightarrow> string \<Rightarrow> jsval \<Rightarrow> jsobject" where
  "setProp [] k v = [(k, v)]"
| "setProp ((k', v') # ps) k v = (if k' = k then (k, v) # ps else (k', v') # setProp ps k v)"

text \<open>
  Every object inherits the members of \<^verbatim>\<open>Object.prototype\<close>, named by \<open>inheritedNames\<close>.
  For a key the schema does not declare, \<^verbatim>\<open>this.schema[key]\<close> is \<^verbatim>\<open>undefined\<close>, unless the
  key is one of these names: then it is the inherited member, which has no property
  \<^verbatim>\<open>index\<close>. The matching loop below follows this. Schema fields and header cells are
  taken not to bear an inherited name (the binding would store an index in the
  inherited member itself).
\<close>

definition inheritedNames :: "string list" where
  "inheritedNames =
     [''constructor'', ''hasOwnProperty'', ''isPrototypeOf'', ''propertyIsEnumerable'',
      ''toLocaleString'', ''toString'', ''valueOf'', ''__proto__'', ''__defineGetter__'',
      ''__defineSetter__'', ''__lookupGetter__'', ''__lookupSetter__'']"

text \<open>
  A row the code builds or patches is a JavaScript array. It is indexed by
  \<^verbatim>\<open>schema[key].index\<close>, which is a number once the schema is bound and \<^verbatim>\<open>undefined\<close>
  before: \<^verbatim>\<open>row[undefined]\<close> is the property named "undefined" of the array, not one of
  its elements. Writing past the end fills the gap with holes, which read as
  \<^verbatim>\<open>undefined\<close>.
\<close>

record jsarray =
  items :: "jsval list"
  undefined_prop :: jsval

definition itemAt :: "jsval list \<Rightarrow> nat \<Rightarrow> jsval" where
  "itemAt xs n = (if n < length xs then xs ! n else JUndefined)"

definition arrayGet :: "jsarray \<Rightarrow> nat option \<Rightarrow> jsval" where
  "arrayGet a i = (case i of None \<Rightarrow> undefined_prop a | Some n \<Rightarrow> itemAt (items a) n)"

definition arraySet :: "jsarray \<Rightarrow> nat option \<Rightarrow> jsval \<Rightarrow> jsarray" where
  "arraySet a i v =
     (case i of
        None \<Rightarrow> a\<lparr>undefined_prop := v\<rparr>
      | Some n \<Rightarrow>
          if n < length (items a) then a\<lparr>items := (items a)[n := v]\<rparr>
          else a\<lparr>items := items a @ replicate (n - length (items a)) JUndefined @ [v]\<rparr>)"

text \<open>
  A row read from the sheet is an array of cell strings with no other property; a cell
  past its end reads as \<^verbatim>\<open>undefined\<close>.
\<close>

definition fromRow :: "string list \<Rightarrow> jsarray" where
  "fromRow row = \<lparr>items = map JString row, undefined_prop = JUndefined\<rparr>"

definition cellAt :: "string list \<Rightarrow> nat option \<Rightarrow> jsval" where
  "cellAt row i = arrayGet (fromRow row) i"

subsection \<open>Errors\<close>

text \<open>
  \<open>Error m\<close> is \<^verbatim>\<open>new Error(m)\<close>; \<open>TypeError p\<close> is the error of reading property \<open>p\<close> of
  \<^verbatim>\<open>undefined\<close>, whose message quotes the name of the property; \<open>TransportError m\<close> is a
  failure of a remote call.
\<close>

datatype error = Error string | TypeError string | TransportError string

fun errorMessage :: "error \<Rightarrow> string" where
  "errorMessage (Error m) = m"
| "errorMessage (TypeError p) =
     ''Cannot read properties of undefined (reading '' @ [CHR 0x27] @ p @ [CHR 0x27] @ '')''"
| "errorMessage (TransportError m) = m"

fun errorToString :: "error \<Rightarrow> string" where
  "errorToString (Error m) = ''Error: '' @ m"
| "errorToString (TypeError p) = ''TypeError: '' @ errorMessage (TypeError p)"
| "errorToString (TransportError m) = ''Error: '' @ m"

section \<open>The schema and the remote sheet\<close>

datatype FieldType = TString | TNumber | TBoolean

fun typeName :: "FieldType \<Rightarrow> string" where
  "typeName TString = ''string''"
| "typeName TNumber = ''number''"
| "typeName TBoolean = ''boolean''"

text \<open>
  \<^verbatim>\<open>interface SchemaField { type; required?; index? }\<close>; the field \<^verbatim>\<open>type\<close> is \<open>ftype\<close>
  here. An absent \<^verbatim>\<open>required\<close> is \<open>False\<close> (the code tests it for truth), an absent
  \<^verbatim>\<open>index\<close> is \<open>None\<close>; an index the caller supplies is overwritten by the binding. A
  schema is the object the caller declares: its fields in the order of declaration.
\<close>

record SchemaField =
  ftype :: FieldType
  required :: bool
  index :: "nat option"

type_synonym Schema = "(string \<times> SchemaField) list"

text \<open>
  The remote calls go to an external service. Each operation makes at most one
  \<^verbatim>\<open>values.get\<close> and at most one write; \<open>transport\<close> holds what the service answers to
  them, and every operation returns the list of requests it sent, in order. A range is
  the whole tab, its first row (\<^verbatim>\<open>1:1\<close>), the cell \<^verbatim>\<open>A1\<close>, or one row by its 1-based
  number (\<^verbatim>\<open>A<n>:<n>\<close>). \<^verbatim>\<open>values.get\<close> answers with rows of cell strings, or with no
  \<^verbatim>\<open>values\<close> at all when the range is empty. A call that fails throws the service's
  error, \<open>TransportError m\<close> with the message \<open>m\<close> held in \<open>transport\<close>.
\<close>

datatype sheet_range = Tab | Row1 | CellA1 | RowN nat

datatype valueInputOption = RAW | USER_ENTERED

datatype request =
    Values_get sheet_range
  | Values_update sheet_range valueInputOption "jsval list list"
  | Values_append sheet_range valueInputOption "jsval list list"

record transport =
  get_response :: "string + string list list option"
  update_error :: "string option"
  append_error :: "string option"

datatype settlement = Resolve string | Reject error

datatype promise = Pending | Fulfilled string | Rejected error

text \<open>
  The instance. \<open>sheets\<close> says whether \<^verbatim>\<open>this.sheets\<close> has been set (it is set by
  \<^verbatim>\<open>addGoogleAuth\<close>); the spreadsheet id and the tab name only address the requests
  and are left out.
\<close>

record GoogleDB =
  schema :: Schema
  headers :: "string list"
  sheets :: bool
  isReady :: promise

fun settle :: "settlement list \<Rightarrow> promise" where
  "settle [] = Pending"
| "settle (Resolve v # _) = Fulfilled v"
| "settle (Reject e # _) = Rejected e"

text \<open>\<^verbatim>\<open>await p\<close>: \<open>None\<close> when the promise never settles.\<close>

fun await :: "promise \<Rightarrow> (error + string) option" where
  "await Pending = None"
| "await (Fulfilled v) = Some (Inr v)"
| "await (Rejected e) = Some (Inl e)"

section \<open>Header binding\<close>

text \<open>
  \<^verbatim>\<open>addHeaders\<close>, lines 56-92. The first loop runs over the schema's keys as \<^verbatim>\<open>for ... in\<close>
  enumerates them and appends every key the fetched header does not hold (membership
  is tested against the header as fetched); the second loop
  walks the merged header by position and stores the position in the schema field of
  that name, so a name the header holds twice ends with its last position.
\<close>

definition pushMissing :: "string list \<Rightarrow> Schema \<Rightarrow> string list" where
  "pushMissing prevHeaders sch =
     fold (\<lambda>key hs. if key \<in> set prevHeaders then hs else hs @ [key]) (map fst (forInOrder sch)) prevHeaders"

definition setIndex :: "Schema \<Rightarrow> string \<Rightarrow> nat \<Rightarrow> Schema" where
  "setIndex sch h i = map (\<lambda>(k, f). if k = h then (k, f\<lparr>index := Some i\<rparr>) else (k, f)) sch"

definition assignIndices :: "string list \<Rightarrow> Schema \<Rightarrow> Schema" where
  "assignIndices hs sch = fold (\<lambda>i s. setIndex s (hs ! i) i) [0..<length hs] sch"

definition fetchedHeader :: "string list list option \<Rightarrow> string list" where
  "fetchedHeader values =
     (case values of
        None \<Rightarrow> [''__ID'']
      | Some [] \<Rightarrow> [''__ID'']
      | Some (r # _) \<Rightarrow> r)"

definition addHeaders :: "GoogleDB \<Rightarrow> transport \<Rightarrow> (error + unit) \<times> GoogleDB \<times> request list" where
  "addHeaders db t =
     (if \<not> sheets db then (Inl (Error (errorToString (TypeError ''spreadsheets''))), db, [])
      else case get_response t of
        Inl m \<Rightarrow> (Inl (Error (errorToString (TransportError m))), db, [Values_get Row1])
      | Inr values \<Rightarrow>
          let prevHeaders = pushMissing (fetchedHeader values) (schema db);
              db' = db\<lparr>headers := prevHeaders, schema := assignIndices prevHeaders (schema db)\<rparr>;
              sent = [Values_get Row1, Values_update CellA1 RAW [map JString prevHeaders]]
          in case update_error t of
               Some m \<Rightarrow> (Inl (Error (errorToString (TransportError m))), db', sent)
             | None \<Rightarrow> (Inr (), db', sent))"

section \<open>The readiness barrier\<close>

text \<open>
  The constructor, lines 29-46. The executor of \<^verbatim>\<open>isReady\<close> authenticates, binds the
  header, and calls \<^verbatim>\<open>resolve\<close> in the \<^verbatim>\<open>try\<close> block as well as in the \<^verbatim>\<open>catch\<close> block;
  \<open>executor\<close> returns the calls it makes to \<^verbatim>\<open>resolve\<close> and \<^verbatim>\<open>reject\<close>. The outcome of
  \<^verbatim>\<open>getGoogleAuth\<close> is an input: \<open>Some e\<close> when it throws.
\<close>

definition executor :: "GoogleDB \<Rightarrow> error option \<Rightarrow> transport \<Rightarrow> settlement list \<times> GoogleDB \<times> request list" where
  "executor db auth t =
     (case auth of
        Some e \<Rightarrow> ([Resolve ''reject''], db, [])
      | None \<Rightarrow>
          (case addHeaders (db\<lparr>sheets := True\<rparr>) t of
             (Inl e, db', sent) \<Rightarrow> ([Resolve ''reject''], db', sent)
           | (Inr u, db', sent) \<Rightarrow> ([Resolve ''success''], db', sent)))"

definition constructor :: "Schema \<Rightarrow> error option \<Rightarrow> transport \<Rightarrow> GoogleDB \<times> request list" where
  "constructor sch auth t =
     (case executor \<lparr>schema = sch, headers = [], sheets = False, isReady = Pending\<rparr> auth t of
        (calls, db, sent) \<Rightarrow> (db\<lparr>isReady := settle calls\<rparr>, sent))"

section \<open>Decoding and matching\<close>

text \<open>\<^verbatim>\<open>parseBooleanNumber\<close>, lines 336-346.\<close>

definition parseBooleanNumber :: "jsval \<Rightarrow> jsval" where
  "parseBooleanNumber val =
     (if strictEq val (JString ''TRUE'') then JBool True
      else if strictEq val (JString ''FALSE'') then JBool False
      else
        let num = Number val in
        if \<not> isNaN num \<and> \<not> strictEq val (JString '''') then JNumber num else val)"

text \<open>
  The matching loop over the query's keys is written out four times in the source
  (lines 165-175, 229-239, 273-283, 307-317), each time the same; \<open>rowFiltered\<close> is that
  loop and returns the flag \<^verbatim>\<open>filtered\<close>; \<open>filteredBy\<close> is its run over the keys as
  enumerated. For a key the schema does not declare, \<^verbatim>\<open>this.schema[key]\<close> is \<^verbatim>\<open>undefined\<close>
  and reading its \<^verbatim>\<open>.index\<close> throws, unless the key names an inherited member: that has
  no \<^verbatim>\<open>index\<close>, so the row is read at \<^verbatim>\<open>undefined\<close> and compared with the query's value.
\<close>

fun filteredBy :: "Schema \<Rightarrow> string list \<Rightarrow> (string \<times> jsval) list \<Rightarrow> error + bool" where
  "filteredBy sch row [] = Inr False"
| "filteredBy sch row ((key, v) # keys) =
     (if key = ''__ID'' then
        (if \<not> strictEq (cellAt row (Some 0)) v then Inr True else filteredBy sch row keys)
      else
        (case map_of sch key of
           Some f \<Rightarrow>
             if \<not> strictEq (cellAt row (index f)) v then Inr True
             else filteredBy sch row keys
         | None \<Rightarrow>
             if key \<in> set inheritedNames then
               (if \<not> strictEq (cellAt row None) v then Inr True else filteredBy sch row keys)
             else Inl (TypeError ''index'')))"

definition rowFiltered :: "Schema \<Rightarrow> string list \<Rightarrow> jsobject \<Rightarrow> error + bool" where
  "rowFiltered sch row query = filteredBy sch row (forInOrder query)"

text \<open>
  Lines 286-290: the row is copied, its first cell is set to the empty string (an empty
  row gets one), and the cells are joined.
\<close>

definition rowJoin :: "string list \<Rightarrow> string" where
  "rowJoin row = concat (case row of [] \<Rightarrow> [[]] | c # cs \<Rightarrow> [] # cs)"

text \<open>
  Lines 292-295: key number \<open>j\<close> of \<^verbatim>\<open>["__ID", ...Object.keys(schema)]\<close> gets cell \<open>j\<close>;
  \<^verbatim>\<open>Object.keys\<close> gives the keys of the schema as enumerated.
\<close>

definition decodeCell :: "jsval \<Rightarrow> jsval" where
  "decodeCell c = parseBooleanNumber (logicalOr c (JString ''''))"

definition decodeRow :: "string list \<Rightarrow> string list \<Rightarrow> jsobject" where
  "decodeRow keys row =
     fold (\<lambda>j obj. setProp obj (keys ! j) (decodeCell (cellAt row (Some j)))) [0..<length keys] []"

fun convertLoop :: "Schema \<Rightarrow> string list \<Rightarrow> jsobject \<Rightarrow> string list list \<Rightarrow> error + jsobject list" where
  "convertLoop sch keys query [] = Inr []"
| "convertLoop sch keys query (row # rows) =
     (case rowFiltered sch row query of
        Inl e \<Rightarrow> Inl e
      | Inr True \<Rightarrow> convertLoop sch keys query rows
      | Inr False \<Rightarrow>
          if rowJoin row = [] then convertLoop sch keys query rows
          else (case convertLoop sch keys query rows of
                  Inl e \<Rightarrow> Inl e
                | Inr jsonData \<Rightarrow> Inr (decodeRow keys row # jsonData)))"

definition convertDataToJSONWithFilters :: "Schema \<Rightarrow> string list list \<Rightarrow> jsobject \<Rightarrow> error + jsobject list" where
  "convertDataToJSONWithFilters sch data query =
     convertLoop sch (''__ID'' # map fst (forInOrder sch)) query (drop 1 data)"

fun convertLoopOne :: "Schema \<Rightarrow> string list \<Rightarrow> jsobject \<Rightarrow> string list list \<Rightarrow> error + jsobject option" where
  "convertLoopOne sch keys query [] = Inr None"
| "convertLoopOne sch keys query (row # rows) =
     (case rowFiltered sch row query of
        Inl e \<Rightarrow> Inl e
      | Inr True \<Rightarrow> convertLoopOne sch keys query rows
      | Inr False \<Rightarrow>
          if rowJoin row = [] then convertLoopOne sch keys query rows
          else Inr (Some (decodeRow keys row)))"

definition convertDataToJSONWithFiltersOne :: "Schema \<Rightarrow> string list list \<Rightarrow> jsobject \<Rightarrow> error + jsobject option" where
  "convertDataToJSONWithFiltersOne sch data query =
     convertLoopOne sch (''__ID'' # map fst (forInOrder sch)) query (drop 1 data)"

text \<open>
  The scan of \<^verbatim>\<open>update\<close> (lines 162-181) and of \<^verbatim>\<open>delete\<close> (lines 226-245), the same in
  both: the first row from index \<open>i\<close> on that is not filtered, with its index.
\<close>

fun locate :: "Schema \<Rightarrow> jsobject \<Rightarrow> string list list \<Rightarrow> nat \<Rightarrow> error + (nat \<times> string list) option" where
  "locate sch query [] i = Inr None"
| "locate sch query (row # rows) i =
     (case rowFiltered sch row query of
        Inl e \<Rightarrow> Inl e
      | Inr True \<Rightarrow> locate sch query rows (Suc i)
      | Inr False \<Rightarrow> Inr (Some (i, row)))"

definition locateRow :: "Schema \<Rightarrow> jsobject \<Rightarrow> string list list option \<Rightarrow> error + (nat \<times> string list) option" where
  "locateRow sch query allData =
     (case allData of None \<Rightarrow> Inr None | Some data \<Rightarrow> locate sch query (drop 1 data) 1)"

section \<open>The operations\<close>

text \<open>
  Every public method awaits \<^verbatim>\<open>isReady\<close> first and then runs its body; the result is
  \<open>None\<close> when the barrier never settles, and otherwise the value returned or the error
  thrown, with the requests sent. \<^verbatim>\<open>this.sheets.spreadsheets\<close> throws when
  \<^verbatim>\<open>this.sheets\<close> was never set.
\<close>

definition awaitReady :: "GoogleDB \<Rightarrow> ((error + 'a) \<times> request list) \<Rightarrow> ((error + 'a) \<times> request list) option" where
  "awaitReady db body =
     (case await (isReady db) of
        None \<Rightarrow> None
      | Some (Inl e) \<Rightarrow> Some (Inl e, [])
      | Some (Inr v) \<Rightarrow> Some body)"

definition getValues :: "GoogleDB \<Rightarrow> transport \<Rightarrow> (error + string list list option) \<times> request list" where
  "getValues db t =
     (if \<not> sheets db then (Inl (TypeError ''spreadsheets''), [])
      else (case get_response t of
              Inl m \<Rightarrow> (Inl (TransportError m), [Values_get Tab])
            | Inr values \<Rightarrow> (Inr values, [Values_get Tab])))"

subsection \<open>\<^verbatim>\<open>create\<close>, lines 94-119\<close>

text \<open>
  Lines 101-106 run over the fields of the schema as enumerated. The record returned
  (line 115) is the spread of the data, which copies its properties as enumerated, with
  \<^verbatim>\<open>__ID\<close> set.
\<close>

fun createLoop :: "Schema \<Rightarrow> jsobject \<Rightarrow> jsarray \<Rightarrow> error + jsarray" where
  "createLoop [] data newValues = Inr newValues"
| "createLoop ((key, f) # sch) data newValues =
     (if required f \<and> strictEq (getProp data key) JUndefined
      then Inl (Error (key @ '' field is required!''))
      else createLoop sch data (arraySet newValues (index f) (getProp data key)))"

definition createBody :: "GoogleDB \<Rightarrow> transport \<Rightarrow> string \<Rightarrow> jsobject \<Rightarrow> (error + jsobject) \<times> request list" where
  "createBody db t uniqueID data =
     (case createLoop (forInOrder (schema db)) data \<lparr>items = [JString uniqueID], undefined_prop = JUndefined\<rparr> of
        Inl e \<Rightarrow> (Inl (Error (errorMessage e)), [])
      | Inr newValues \<Rightarrow>
          if \<not> sheets db then (Inl (Error (errorMessage (TypeError ''spreadsheets''))), [])
          else
            let sent = [Values_append Tab RAW [items newValues]] in
            (case append_error t of
               Some m \<Rightarrow> (Inl (Error (errorMessage (TransportError m))), sent)
             | None \<Rightarrow> (Inr (setProp (forInOrder data) ''__ID'' (JString uniqueID)), sent)))"

definition create :: "GoogleDB \<Rightarrow> transport \<Rightarrow> string \<Rightarrow> jsobject \<Rightarrow> ((error + jsobject) \<times> request list) option" where
  "create db t uniqueID data = awaitReady db (createBody db t uniqueID data)"

subsection \<open>\<^verbatim>\<open>find\<close> and \<^verbatim>\<open>findOne\<close>, lines 121-149\<close>

definition findBody :: "GoogleDB \<Rightarrow> transport \<Rightarrow> jsobject \<Rightarrow> (error + jsobject list) \<times> request list" where
  "findBody db t query =
     (case getValues db t of
        (Inl e, sent) \<Rightarrow> (Inl e, sent)
      | (Inr None, sent) \<Rightarrow> (Inl (TypeError ''length''), sent)
      | (Inr (Some data), sent) \<Rightarrow> (convertDataToJSONWithFilters (schema db) data query, sent))"

definition find_op :: "GoogleDB \<Rightarrow> transport \<Rightarrow> jsobject \<Rightarrow> ((error + jsobject list) \<times> request list) option" where
  "find_op db t query = awaitReady db (findBody db t query)"

definition findOneBody :: "GoogleDB \<Rightarrow> transport \<Rightarrow> jsobject \<Rightarrow> (error + jsobject option) \<times> request list" where
  "findOneBody db t query =
     (case getValues db t of
        (Inl e, sent) \<Rightarrow> (Inl e, sent)
      | (Inr None, sent) \<Rightarrow> (Inl (TypeError ''length''), sent)
      | (Inr (Some data), sent) \<Rightarrow> (convertDataToJSONWithFiltersOne (schema db) data query, sent))"

definition findOne :: "GoogleDB \<Rightarrow> transport \<Rightarrow> jsobject \<Rightarrow> ((error + jsobject option) \<times> request list) option" where
  "findOne db t query = awaitReady db (findOneBody db t query)"

subsection \<open>\<^verbatim>\<open>update\<close>, lines 151-213\<close>

text \<open>
  Lines 185-192: the fields of the schema as enumerated; a field the patch holds is
  checked against its declared type and then written into the row in memory.
\<close>

fun patchLoop :: "Schema \<Rightarrow> jsobject \<Rightarrow> jsarray \<Rightarrow> error + jsarray" where
  "patchLoop [] newData rowToUpdate = Inr rowToUpdate"
| "patchLoop ((key, f) # sch) newData rowToUpdate =
     (if \<not> strictEq (getProp newData key) JUndefined then
        (if typeName (ftype f) \<noteq> typeof (getProp newData key)
         then Inl (Error (key @ '' field should be of type '' @ typeName (ftype f)))
         else patchLoop sch newData (arraySet rowToUpdate (index f) (getProp newData key)))
      else patchLoop sch newData rowToUpdate)"

text \<open>
  Lines 204-206: the patch object is filled from the row, field by field of the schema
  as enumerated, and returned.
\<close>

definition readBack :: "Schema \<Rightarrow> jsarray \<Rightarrow> jsobject \<Rightarrow> jsobject" where
  "readBack sch rowToUpdate newData =
     fold (\<lambda>(key, f) nd. setProp nd key (parseBooleanNumber (arrayGet rowToUpdate (index f)))) sch newData"

definition updateBody :: "GoogleDB \<Rightarrow> transport \<Rightarrow> jsobject \<Rightarrow> jsobject \<Rightarrow> (error + jsobject) \<times> request list" where
  "updateBody db t query newData =
     (case getValues db t of
        (Inl e, sent) \<Rightarrow> (Inl e, sent)
      | (Inr allData, sent) \<Rightarrow>
          (case locateRow (schema db) query allData of
             Inl e \<Rightarrow> (Inl e, sent)
           | Inr None \<Rightarrow> (Inl (Error ''Cannot find row with this query!''), sent)
           | Inr (Some (rowIndexToUpdate, row)) \<Rightarrow>
               (case patchLoop (forInOrder (schema db)) newData (fromRow row) of
                  Inl e \<Rightarrow> (Inl e, sent)
                | Inr rowToUpdate \<Rightarrow>
                    let sent' = sent @ [Values_update (RowN (rowIndexToUpdate + 1)) USER_ENTERED [items rowToUpdate]] in
                    (case update_error t of
                       Some m \<Rightarrow> (Inl (TransportError m), sent')
                     | None \<Rightarrow> (Inr (readBack (forInOrder (schema db)) rowToUpdate newData), sent')))))"

definition update :: "GoogleDB \<Rightarrow> transport \<Rightarrow> jsobject \<Rightarrow> jsobject \<Rightarrow> ((error + jsobject) \<times> request list) option" where
  "update db t query newData = awaitReady db (updateBody db t query newData)"

subsection \<open>\<^verbatim>\<open>delete\<close>, lines 215-265\<close>

definition deleteBody :: "GoogleDB \<Rightarrow> transport \<Rightarrow> jsobject \<Rightarrow> (error + unit) \<times> request list" where
  "deleteBody db t query =
     (case getValues db t of
        (Inl e, sent) \<Rightarrow> (Inl e, sent)
      | (Inr allData, sent) \<Rightarrow>
          (case locateRow (schema db) query allData of
             Inl e \<Rightarrow> (Inl e, sent)
           | Inr None \<Rightarrow> (Inl (Error ''Cannot find row with this query!''), sent)
           | Inr (Some (rowIndexToUpdate, row)) \<Rightarrow>
               let rowToUpdate = map (\<lambda>c. JString []) row;
                   sent' = sent @ [Values_update (RowN (rowIndexToUpdate + 1)) USER_ENTERED [rowToUpdate]]
               in (case update_error t of
                     Some m \<Rightarrow> (Inl (TransportError m), sent')
                   | None \<Rightarrow> (Inr (), sent'))))"

definition delete :: "GoogleDB \<Rightarrow> transport \<Rightarrow> jsobject \<Rightarrow> ((error + unit) \<times> request list) option" where
  "delete db t query = awaitReady db (deleteBody db t query)"

section \<open>Vocabulary of the properties\<close>

text \<open>
  The specification calls a row whose cells after the first are all empty a tombstone;
  \<open>tombstone\<close> says so in the specification's words, to be compared with the test the
  code makes on \<open>rowJoin\<close>.
\<close>

definition tombstone :: "string list \<Rightarrow> bool" where
  "tombstone row = list_all (\<lambda>c. c = []) (tl row)"

text \<open>A row passes the keys of a query when the matching loop runs through and leaves it unfiltered.\<close>

definition matches :: "Schema \<Rightarrow> jsobject \<Rightarrow> string list \<Rightarrow> bool" where
  "matches sch query row = (rowFiltered sch row query = Inr False)"

text \<open>
  A query key is declared when it is the identity sentinel or a field of the schema. A
  field of the patch is mismatched when the patch holds it with a value whose
  \<^verbatim>\<open>typeof\<close> is not the declared type.
\<close>

definition declared :: "Schema \<Rightarrow> string \<Rightarrow> bool" where
  "declared sch key = (key = ''__ID'' \<or> map_of sch key \<noteq> None)"

text \<open>A row passes a key of a query when the matching loop goes on to the next key.\<close>

definition passes :: "Schema \<Rightarrow> string list \<Rightarrow> string \<times> jsval \<Rightarrow> bool" where
  "passes sch row =
     (\<lambda>(key, v).
        if key = ''__ID'' then strictEq (cellAt row (Some 0)) v
        else case map_of sch key of
               Some f \<Rightarrow> strictEq (cellAt row (index f)) v
             | None \<Rightarrow> key \<in> set inheritedNames \<and> strictEq (cellAt row None) v)"


text \<open>The same schema with other declared types.\<close>

definition retype :: "(string \<Rightarrow> FieldType) \<Rightarrow> Schema \<Rightarrow> Schema" where
  "retype ty sch = map (\<lambda>(k, f). (k, f\<lparr>ftype := ty k\<rparr>)) sch"



subsection \<open>A sample store\<close>

text \<open>
  The schema of the specification's example, a blank tab, and the instance the
  constructor builds from them; \<open>serving data\<close> is a service that answers every
  \<^verbatim>\<open>values.get\<close> with \<open>data\<close> and accepts every write. \<open>unboundDB sch\<close> is the instance
  at the moment \<^verbatim>\<open>addHeaders\<close> is called.
\<close>

definition sampleSchema :: Schema where
  "sampleSchema =
     [(''name'', \<lparr>ftype = TString, required = True, index = None\<rparr>),
      (''age'', \<lparr>ftype = TNumber, required = False, index = None\<rparr>)]"



definition emptySheet :: transport where
  "emptySheet = \<lparr>get_response = Inr None, update_error = None, append_error = None\<rparr>"

definition serving :: "string list list \<Rightarrow> transport" where
  "serving data = \<lparr>get_response = Inr (Some data), update_error = None, append_error = None\<rparr>"

definition unboundDB :: "Schema \<Rightarrow> GoogleDB" where
  "unboundDB sch = \<lparr>schema = sch, headers = [], sheets = True, isReady = Pending\<rparr>"

definition sampleDB :: GoogleDB where
  "sampleDB =
     \<lparr>schema =
        [(''name'', \<lparr>ftype = TString, required = True, index = Some 1\<rparr>),
         (''age'', \<lparr>ftype = TNumber, required = False, index = Some 2\<rparr>)],
      headers = [''__ID'', ''name'', ''age''],
      sheets = True,
      isReady = Fulfilled ''success''\<rparr>"


definition sampleTable :: "string list list" where
  "sampleTable =
     [[''__ID'', ''name'', ''age''],
      [''id1'', ''Ann'', ''30''],
      [''id2'', ''Ann'', ''31'']]"

text \<open>
  Two tables with a deleted record: \<^verbatim>\<open>delete\<close> blanks every cell of the row, and the
  service returns a blanked row between others as an empty row.
\<close>

definition blankedTable :: "string list list" where
  "blankedTable =
     [[''__ID'', ''name'', ''age''],
      [[], [], []],
      [''id2'', ''Ann'', ''31'']]"

definition gapTable :: "string list list" where
  "gapTable =
     [[''__ID'', ''name'', ''age''],
      [],
      [''id2'', ''Ann'', ''30''],
      [''id3'', ''Ann'', ''31'']]"

section \<open>Enumeration order\<close>

lemma set_forInOrder: "set (forInOrder xs) = set xs"
  by (auto simp: forInOrder_def)

lemma list_all_forInOrder: "list_all P (forInOrder xs) = list_all P xs"
  by (simp add: list_all_iff set_forInOrder)

lemma list_ex_forInOrder: "list_ex P (forInOrder xs) = list_ex P xs"
  by (simp add: list_ex_iff set_forInOrder)


lemma forInOrder_others:
  "filter (\<lambda>p. arrayIndex (fst p) = None) (forInOrder xs) = filter (\<lambda>p. arrayIndex (fst p) = None) xs"
  by (simp add: forInOrder_def filter_empty_conv)

lemma forInOrder_indices:
  "filter (\<lambda>p. arrayIndex (fst p) \<noteq> None) (forInOrder xs) =
   sort_key (\<lambda>p. the (arrayIndex (fst p))) (filter (\<lambda>p. arrayIndex (fst p) \<noteq> None) xs)"
proof -
  have "filter (\<lambda>p. arrayIndex (fst p) \<noteq> None) ys = ys"
    if "set ys \<subseteq> {p. arrayIndex (fst p) \<noteq> None}" for ys :: "(string \<times> 'a) list"
    using that by (induction ys) auto
  then show ?thesis
    by (auto simp: forInOrder_def filter_empty_conv)
qed

lemma forInOrder_split:
  "forInOrder xs =
   filter (\<lambda>p. arrayIndex (fst p) \<noteq> None) (forInOrder xs)
   @ filter (\<lambda>p. arrayIndex (fst p) = None) (forInOrder xs)"
  by (simp only: forInOrder_others forInOrder_indices) (simp add: forInOrder_def)

lemma forInOrder_sorted:
  "sorted (map (\<lambda>p. the (arrayIndex (fst p))) (filter (\<lambda>p. arrayIndex (fst p) \<noteq> None) (forInOrder xs)))"
  by (simp only: forInOrder_indices sorted_sort_key)

lemma insort_key_map: "insort_key f (g x) (map g xs) = map g (insort_key (\<lambda>x. f (g x)) x xs)"
  by (induction xs) auto

lemma sort_key_map: "sort_key f (map g xs) = map g (sort_key (\<lambda>x. f (g x)) xs)"
  by (induction xs) (simp_all add: insort_key_map)

lemma forInOrder_map:
  assumes "\<And>p. fst (g p) = fst p"
  shows "forInOrder (map g xs) = map g (forInOrder xs)"
  by (simp add: forInOrder_def filter_map comp_def assms sort_key_map)

section \<open>Decoding a cell\<close>

lemma Number_TRUE: "StringToNumber ''TRUE'' = NaN"
  by code_simp

lemma Number_FALSE: "StringToNumber ''FALSE'' = NaN"
  by code_simp

lemma StringToNumber_42: "StringToNumber ''42'' = Num 42"
  by code_simp

text \<open>
  No white space text is empty and none begins another one, so a text made of white
  space only is trimmed to nothing, from either end.
\<close>

lemma whiteSpace_nonempty: "list_all (\<lambda>w. w \<noteq> []) whiteSpace"
  by code_simp

lemma whiteSpace_prefix_free:
  "list_all (\<lambda>a. list_all (\<lambda>b. a = b \<or> take (length a) b \<noteq> a) whiteSpace) whiteSpace"
  by code_simp

lemma dropLeading_token:
  assumes "w \<in> set whiteSpace"
  shows "dropLeading whiteSpace (w @ s) = dropLeading whiteSpace s"
proof -
  from assms whiteSpace_nonempty have ne: "w \<noteq> []"
    by (auto simp: list_all_iff)
  then obtain c cs where ws: "w @ s = c # cs"
    by (cases w) auto
  let ?P = "\<lambda>w'. w' \<noteq> [] \<and> take (length w') (c # cs) = w'"
  have "?P w" using ne ws [symmetric] by simp
  with assms obtain w' where f: "List.find ?P whiteSpace = Some w'"
    by (cases "List.find ?P whiteSpace") (auto simp: find_None_iff)
  then have w': "w' \<in> set whiteSpace" and pre: "take (length w') (w @ s) = w'"
    by (auto simp: find_Some_iff ws)
  have free: "a = b \<or> take (length a) b \<noteq> a" if "a \<in> set whiteSpace" "b \<in> set whiteSpace" for a b
    using whiteSpace_prefix_free that by (auto simp: list_all_iff)
  have "w' = w"
  proof (cases "length w' \<le> length w")
    case True
    with pre have "take (length w') w = w'" by simp
    with free [OF w' assms] show ?thesis by simp
  next
    case False
    have "take (length w) w' = take (length w) (take (length w') (w @ s))"
      by (simp only: pre)
    also have "\<dots> = w" using False by (simp add: min_def)
    finally show ?thesis using free [OF assms w'] by simp
  qed
  with f have "dropLeading whiteSpace (c # cs) = dropLeading whiteSpace (drop (length w) (c # cs))"
    by (simp add: dropLeading.simps)
  then show ?thesis by (simp add: ws [symmetric])
qed

lemma dropLeading_tokens:
  "list_all (\<lambda>w. w \<in> set whiteSpace) ws \<Longrightarrow>
   dropLeading whiteSpace (concat ws @ s) = dropLeading whiteSpace s"
  by (induction ws) (simp_all add: dropLeading_token)

lemma trimString_whitespace:
  "list_all (\<lambda>w. w \<in> set whiteSpace) ws \<Longrightarrow> trimString (concat ws) = []"
  using dropLeading_tokens [of ws "[]"] by (simp add: trimString_def dropLeading.simps)

lemma StringToNumber_whitespace:
  "list_all (\<lambda>w. w \<in> set whiteSpace) ws \<Longrightarrow> StringToNumber (concat ws) = Num 0"
  by (simp add: StringToNumber_def trimString_whitespace)

lemma concat_whitespace_nonempty:
  "ws \<noteq> [] \<Longrightarrow> list_all (\<lambda>w. w \<in> set whiteSpace) ws \<Longrightarrow> concat ws \<noteq> []"
  using whiteSpace_nonempty by (cases ws) (auto simp: list_all_iff)

text \<open>
  The no-break space, the line separator and the byte order mark are white space; a
  numeral beyond the largest double is an infinity, one between two doubles is rounded
  to the nearer (to the even one at the midpoint), and a negative zero keeps its sign.
\<close>

lemma StringToNumber_no_break_space: "StringToNumber [CHR 0xC2, CHR 0xA0] = Num 0"
  by code_simp

lemma StringToNumber_line_separator: "StringToNumber [CHR 0xE2, CHR 0x80, CHR 0xA8, CHR ''7''] = Num 7"
  by code_simp

lemma StringToNumber_stray_byte: "StringToNumber [CHR 0xA0] = NaN"
  by code_simp

lemma StringToNumber_rounds: "StringToNumber ''9007199254740993'' = Num 9007199254740992"
  by code_simp

lemma StringToNumber_tenth: "StringToNumber ''0.1'' = Num (3602879701896397 / 36028797018963968)"
  by code_simp

lemma StringToNumber_negative_zero: "StringToNumber ''-0'' = NegZero"
  by code_simp

lemma StringToNumber_hex: "StringToNumber ''0x1F'' = Num 31"
  by code_simp

lemma toDouble_overflow: "toDouble (10 ^ 309) = PosInfinity"
proof -
  have "bitlen (10 ^ 309) \<le> 1027" "1027 \<le> bitlen (10 ^ 309)"
    by (simp_all add: bitlen_le_iff_power bitlen_ge_iff_power)
  then have bl: "bitlen (10 ^ 309) = 1027" by simp
  have b1: "bitlen 1 = 1"
    using bitlen_twopow_add_eq [of 0 0] by simp
  have q: "quotient_of (10 ^ 309) = (10 ^ 309, 1)"
    using quotient_of_int [of "10 ^ 309"] by simp
  have f: "floorLog2 (10 ^ 309) = 1026"
    unfolding floorLog2_def q by (simp only: prod.case Let_def bl b1, simp add: pow2_def)
  show ?thesis
    unfolding toDouble_def f by (simp add: pow2_def roundHalfEven_def Let_def)
qed

lemma StringToNumber_overflow: "StringToNumber ''1e309'' = PosInfinity"
  by (simp add: StringToNumber_def trimString_def dropLeading.simps whiteSpace_def
        NonDecimalIntegerLiteral_def StrDecimalLiteral_def StrUnsignedDecimalLiteral_def
        isDecimalDigit_def decimalValue_def ExponentPart_def digits_def digitValue_def
        scale10_def toDouble_overflow [simplified] Let_def)

lemma decodeCell_string:
  "decodeCell (JString v) =
     (if v = ''TRUE'' then JBool True
      else if v = ''FALSE'' then JBool False
      else if StringToNumber v \<noteq> NaN \<and> v \<noteq> [] then JNumber (StringToNumber v)
      else JString v)"
  by (cases "v = []")
     (simp_all add: decodeCell_def logicalOr_def parseBooleanNumber_def strictEq_def isNaN_def
        StringToNumber_def trimString_def dropLeading.simps)

lemma decodeCell_undefined: "decodeCell JUndefined = JString []"
  by (simp add: decodeCell_def logicalOr_def parseBooleanNumber_def strictEq_def isNaN_def
        StringToNumber_def trimString_def dropLeading.simps)

lemma cellAt_Some: "cellAt row (Some j) = (if j < length row then JString (row ! j) else JUndefined)"
  by (simp add: cellAt_def arrayGet_def fromRow_def itemAt_def)

lemma cellAt_None: "cellAt row None = JUndefined"
  by (simp add: cellAt_def arrayGet_def fromRow_def)

lemma map_of_setProp: "map_of (setProp obj k v) = (map_of obj)(k \<mapsto> v)"
  by (induction obj k v rule: setProp.induct) auto

lemma getProp_setProp: "getProp (setProp obj k v) k' = (if k' = k then v else getProp obj k')"
  by (simp add: getProp_def map_of_setProp)

lemma decode_fold_below:
  "n \<le> length keys \<Longrightarrow> distinct keys \<Longrightarrow> j < n \<Longrightarrow>
   getProp (fold (\<lambda>j obj. setProp obj (keys ! j) (g j)) [0..<n] []) (keys ! j) = g j"
proof (induction n)
  case 0
  then show ?case by simp
next
  case (Suc n)
  show ?case
  proof (cases "j = n")
    case True
    then show ?thesis by (simp add: getProp_setProp)
  next
    case False
    with Suc.prems have jn: "j < n" and nl: "n < length keys" by simp_all
    with Suc.prems have "keys ! j \<noteq> keys ! n"
      by (simp add: nth_eq_iff_index_eq)
    with Suc.IH jn nl Suc.prems show ?thesis by (simp add: getProp_setProp)
  qed
qed

lemma getProp_decodeRow:
  "distinct keys \<Longrightarrow> j < length keys \<Longrightarrow>
   getProp (decodeRow keys row) (keys ! j) = decodeCell (cellAt row (Some j))"
  unfolding decodeRow_def by (rule decode_fold_below) simp_all

lemma map_of_retype: "map_of (retype ty sch) k = map_option (\<lambda>f. f\<lparr>ftype := ty k\<rparr>) (map_of sch k)"
  by (induction sch) (auto simp: retype_def)

lemma filteredBy_retype: "filteredBy (retype ty sch) row keys = filteredBy sch row keys"
  by (induction sch row keys rule: filteredBy.induct)
     (auto simp: map_of_retype split: option.splits)

lemma rowFiltered_retype: "rowFiltered (retype ty sch) row query = rowFiltered sch row query"
  by (simp add: rowFiltered_def filteredBy_retype)

lemma keys_retype: "map fst (forInOrder (retype ty sch)) = map fst (forInOrder sch)"
proof -
  let ?g = "\<lambda>(k, f). (k, f\<lparr>ftype := ty k\<rparr>)"
  have "fst (?g p) = fst p" for p :: "string \<times> SchemaField"
    by (cases p) simp
  then have "forInOrder (map ?g sch) = map ?g (forInOrder sch)"
    by (rule forInOrder_map)
  then show ?thesis by (simp add: retype_def comp_def case_prod_unfold)
qed

lemma convertLoop_retype:
  "convertLoop (retype ty sch) keys query rows = convertLoop sch keys query rows"
  by (induction rows) (auto simp: rowFiltered_retype split: sum.splits bool.splits)

lemma convertLoopOne_retype:
  "convertLoopOne (retype ty sch) keys query rows = convertLoopOne sch keys query rows"
  by (induction rows) (auto simp: rowFiltered_retype split: sum.splits bool.splits)

text \<open>
  Claim C3. Decoding a cell, as \<^verbatim>\<open>find\<close> and \<^verbatim>\<open>findOne\<close> do it: a missing cell decodes as
  the empty string does, and the empty string decodes to itself, never to zero; the
  text \<^verbatim>\<open>TRUE\<close> decodes to the boolean true and \<^verbatim>\<open>FALSE\<close> to false; any other text \<open>v\<close>
  decodes to the number it parses as when it parses and is not empty, and to itself
  otherwise. The record of a row gives key number \<open>j\<close> the decoded cell number \<open>j\<close>, and
  what \<^verbatim>\<open>find\<close> and \<^verbatim>\<open>findOne\<close> return is the same whatever types the schema declares.
\<close>

theorem decode_coercion:
  "decodeCell JUndefined = decodeCell (JString [])
   \<and> decodeCell (JString []) = JString []
   \<and> decodeCell (JString ''TRUE'') = JBool True
   \<and> decodeCell (JString ''FALSE'') = JBool False
   \<and> (v \<noteq> ''TRUE'' \<longrightarrow> v \<noteq> ''FALSE'' \<longrightarrow>
        decodeCell (JString v) =
          (if StringToNumber v \<noteq> NaN \<and> v \<noteq> [] then JNumber (StringToNumber v) else JString v))
   \<and> (distinct keys \<longrightarrow> j < length keys \<longrightarrow>
        getProp (decodeRow keys row) (keys ! j) =
          decodeCell (if j < length row then JString (row ! j) else JUndefined))
   \<and> convertDataToJSONWithFilters (retype ty sch) data query =
        convertDataToJSONWithFilters sch data query
   \<and> convertDataToJSONWithFiltersOne (retype ty sch) data query =
        convertDataToJSONWithFiltersOne sch data query"
proof -
  have cells: "distinct keys \<Longrightarrow> j < length keys \<Longrightarrow>
      getProp (decodeRow keys row) (keys ! j) =
        decodeCell (if j < length row then JString (row ! j) else JUndefined)"
    using getProp_decodeRow [of keys j row] by (simp add: cellAt_Some)
  have find_all: "convertDataToJSONWithFilters (retype ty sch) data query =
      convertDataToJSONWithFilters sch data query"
    by (simp add: convertDataToJSONWithFilters_def convertLoop_retype keys_retype)
  have find_one: "convertDataToJSONWithFiltersOne (retype ty sch) data query =
      convertDataToJSONWithFiltersOne sch data query"
    by (simp add: convertDataToJSONWithFiltersOne_def convertLoopOne_retype keys_retype)
  show ?thesis
    using cells find_all find_one
    by (simp add: decodeCell_string decodeCell_undefined)
qed

theorem decode_coercion_witness:
  "decodeCell (JString ''42'') = JNumber (Num 42)
   \<and> getProp (decodeRow [''__ID'', ''name''] [''id1'', ''42'']) ''name'' = JNumber (Num 42)
   \<and> decodeCell (JString [CHR 0xC2, CHR 0xA0]) = JNumber (Num 0)
   \<and> decodeCell (JString ''9007199254740993'') = JNumber (Num 9007199254740992)
   \<and> decodeCell (JString ''-0'') = JNumber NegZero"
proof -
  have k: "distinct [''__ID'', ''name'']" "(1::nat) < length [''__ID'', ''name'']" by simp_all
  from decode_coercion [of "''42''" "[''__ID'', ''name'']" 1 "[''id1'', ''42'']"] k
  have a: "decodeCell (JString ''42'') = JNumber (Num 42)
      \<and> getProp (decodeRow [''__ID'', ''name''] [''id1'', ''42'']) ''name'' = JNumber (Num 42)"
    by (simp add: StringToNumber_42)
  from decode_coercion [of "[CHR 0xC2, CHR 0xA0]"]
  have b: "decodeCell (JString [CHR 0xC2, CHR 0xA0]) = JNumber (Num 0)"
    by (simp add: StringToNumber_no_break_space)
  from decode_coercion [of "''9007199254740993''"]
  have c: "decodeCell (JString ''9007199254740993'') = JNumber (Num 9007199254740992)"
    by (simp add: StringToNumber_rounds)
  from decode_coercion [of "''-0''"]
  have d: "decodeCell (JString ''-0'') = JNumber NegZero"
    by (simp add: StringToNumber_negative_zero)
  from a b c d show ?thesis by blast
qed

text \<open>
  Claim C10. Every cell text that is not empty and parses as a number decodes to that
  number. A text of white space only parses as \<open>0\<close>, so a cell holding white space (one
  space, a tab, a no-break space, any run of the language's white space characters and
  line terminators) decodes to the number \<open>0\<close>, while the empty text decodes to itself.
\<close>

theorem decode_nonempty_numeric:
  "(v \<noteq> [] \<longrightarrow> StringToNumber v \<noteq> NaN \<longrightarrow> decodeCell (JString v) = JNumber (StringToNumber v))
   \<and> (ws \<noteq> [] \<longrightarrow> list_all (\<lambda>w. w \<in> set whiteSpace) ws \<longrightarrow>
        concat ws \<noteq> [] \<and> decodeCell (JString (concat ws)) = JNumber (Num 0))
   \<and> decodeCell (JString '' '') = JNumber (Num 0)
   \<and> decodeCell (JString []) = JString []"
proof -
  have a: "u \<noteq> [] \<Longrightarrow> StringToNumber u \<noteq> NaN \<Longrightarrow> decodeCell (JString u) = JNumber (StringToNumber u)" for u
    using Number_TRUE Number_FALSE by (auto simp: decodeCell_string)
  have b: "concat ws \<noteq> [] \<and> decodeCell (JString (concat ws)) = JNumber (Num 0)"
    if "ws \<noteq> []" "list_all (\<lambda>w. w \<in> set whiteSpace) ws"
    using a [of "concat ws"] concat_whitespace_nonempty [OF that] StringToNumber_whitespace [OF that(2)]
    by simp
  have "StringToNumber '' '' = Num 0" by code_simp
  with a [of "'' ''"] have c: "decodeCell (JString '' '') = JNumber (Num 0)" by simp
  have d: "decodeCell (JString []) = JString []"
    by (simp add: decodeCell_string)
  from a [of v] b c d show ?thesis by blast
qed

theorem decode_nonempty_numeric_witness:
  "list_all (\<lambda>w. w \<in> set whiteSpace) [[CHR 0xC2, CHR 0xA0], [CHR 0x09], [CHR 0xE2, CHR 0x80, CHR 0xA8]]
   \<and> StringToNumber [CHR 0xC2, CHR 0xA0, CHR 0x09, CHR 0xE2, CHR 0x80, CHR 0xA8] \<noteq> NaN
   \<and> decodeCell (JString [CHR 0xC2, CHR 0xA0, CHR 0x09, CHR 0xE2, CHR 0x80, CHR 0xA8]) = JNumber (Num 0)
   \<and> decodeCell (JString ''1e309'') = JNumber PosInfinity"
proof -
  let ?ws = "[[CHR 0xC2, CHR 0xA0], [CHR 0x09], [CHR 0xE2, CHR 0x80, CHR 0xA8]]"
  have ws: "list_all (\<lambda>w. w \<in> set whiteSpace) ?ws"
    by (simp add: whiteSpace_def)
  have ne: "?ws \<noteq> []" by simp
  have "decodeCell (JString (concat ?ws)) = JNumber (Num 0)"
    using decode_nonempty_numeric [of "''1e309''" ?ws] ws ne by blast
  then have zero: "decodeCell (JString [CHR 0xC2, CHR 0xA0, CHR 0x09, CHR 0xE2, CHR 0x80, CHR 0xA8]) = JNumber (Num 0)"
    by simp
  have "StringToNumber (concat ?ws) = Num 0"
    using ws by (rule StringToNumber_whitespace)
  then have n: "StringToNumber [CHR 0xC2, CHR 0xA0, CHR 0x09, CHR 0xE2, CHR 0x80, CHR 0xA8] \<noteq> NaN"
    by simp
  have "decodeCell (JString ''1e309'') = JNumber PosInfinity"
    using decode_nonempty_numeric [of "''1e309''" ?ws] by (simp add: StringToNumber_overflow)
  with ws n zero show ?thesis by blast
qed

section \<open>Header binding is additive\<close>

lemma pushMissing_fold:
  "fold (\<lambda>key hs. if key \<in> set prev then hs else hs @ [key]) ks acc =
   acc @ filter (\<lambda>k. k \<notin> set prev) ks"
  by (induction ks arbitrary: acc) auto

lemma pushMissing_eq:
  "pushMissing prev sch = prev @ filter (\<lambda>k. k \<notin> set prev) (map fst (forInOrder sch))"
  by (simp add: pushMissing_def pushMissing_fold)









lemma pushMissing_covers: "(k, f) \<in> set sch \<Longrightarrow> k \<in> set (pushMissing prev sch)"
  by (force simp: pushMissing_eq set_forInOrder)












lemma sample_constructed:
  "constructor sampleSchema None emptySheet =
     (sampleDB,
      [Values_get Row1, Values_update CellA1 RAW [[JString ''__ID'', JString ''name'', JString ''age'']]])"
  by code_simp



section \<open>The readiness barrier always resolves\<close>

lemma addHeaders_result:
  "fst (addHeaders db t) = Inr () \<longleftrightarrow>
     sheets db \<and> (\<exists>f. get_response t = Inr f) \<and> update_error t = None"
  by (auto simp: addHeaders_def Let_def split: sum.splits option.splits)

lemma addHeaders_sent:
  "snd (snd (addHeaders db t)) = [] \<or> snd (snd (addHeaders db t)) = [Values_get Row1]
   \<or> (\<exists>hs. snd (snd (addHeaders db t)) = [Values_get Row1, Values_update CellA1 RAW hs])"
  by (auto simp: addHeaders_def Let_def split: sum.splits option.splits)


lemma addHeaders_isReady: "isReady (fst (snd (addHeaders db t))) = isReady db"
  by (auto simp: addHeaders_def Let_def split: sum.splits option.splits)

lemma executor_calls:
  "fst (executor db auth t) =
     [Resolve (if auth = None \<and> (\<exists>f. get_response t = Inr f) \<and> update_error t = None
               then ''success'' else ''reject'')]"
proof (cases auth)
  case None
  obtain r db' sent where a: "addHeaders (db\<lparr>sheets := True\<rparr>) t = (r, db', sent)"
    by (cases "addHeaders (db\<lparr>sheets := True\<rparr>) t") auto
  have "r = Inr () \<longleftrightarrow> (\<exists>f. get_response t = Inr f) \<and> update_error t = None"
    using addHeaders_result [of "db\<lparr>sheets := True\<rparr>" t] a by simp
  with None a show ?thesis
    by (cases r) (auto simp: executor_def)
next
  case (Some e)
  then show ?thesis by (simp add: executor_def)
qed

lemma executor_sent:
  "snd (snd (executor db auth t)) = [] \<or> snd (snd (executor db auth t)) = [Values_get Row1]
   \<or> (\<exists>hs. snd (snd (executor db auth t)) = [Values_get Row1, Values_update CellA1 RAW hs])"
proof (cases auth)
  case None
  obtain r db' sent where a: "addHeaders (db\<lparr>sheets := True\<rparr>) t = (r, db', sent)"
    by (cases "addHeaders (db\<lparr>sheets := True\<rparr>) t") auto
  with None have "snd (snd (executor db auth t)) = snd (snd (addHeaders (db\<lparr>sheets := True\<rparr>) t))"
    by (cases r) (auto simp: executor_def)
  then show ?thesis using addHeaders_sent [of "db\<lparr>sheets := True\<rparr>" t] by simp
next
  case (Some e)
  then show ?thesis by (simp add: executor_def)
qed


lemma constructor_parts:
  "constructor sch auth t =
     ((fst (snd (executor \<lparr>schema = sch, headers = [], sheets = False, isReady = Pending\<rparr> auth t)))
        \<lparr>isReady := settle (fst (executor \<lparr>schema = sch, headers = [], sheets = False, isReady = Pending\<rparr> auth t))\<rparr>,
      snd (snd (executor \<lparr>schema = sch, headers = [], sheets = False, isReady = Pending\<rparr> auth t)))"
  by (simp add: constructor_def split: prod.splits)

lemma constructor_isReady:
  "isReady (fst (constructor sch auth t)) =
     Fulfilled (if auth = None \<and> (\<exists>f. get_response t = Inr f) \<and> update_error t = None
                then ''success'' else ''reject'')"
  by (simp add: constructor_parts executor_calls)


text \<open>
  Claim C8. The readiness barrier: whatever authentication and header binding do, the
  executor calls \<^verbatim>\<open>resolve\<close> exactly once and \<^verbatim>\<open>reject\<close> never, with "success" when both
  went through and "reject" otherwise; the barrier of a constructed instance is
  therefore fulfilled, awaiting it hands control to the body of the operation, and the
  failure of the start-up is not passed on. The start-up is not tried again: the
  constructor sends at most one fetch of the header and at most one write of it.
\<close>

theorem readiness_barrier_resolves_once:
  "(\<exists>v. fst (executor db auth t) = [Resolve v] \<and> (v = ''success'' \<or> v = ''reject''))
   \<and> isReady (fst (constructor sch auth t)) =
       Fulfilled (if auth = None \<and> (\<exists>f. get_response t = Inr f) \<and> update_error t = None
                  then ''success'' else ''reject'')
   \<and> awaitReady (fst (constructor sch auth t)) body = Some body
   \<and> (snd (constructor sch auth t) = [] \<or> snd (constructor sch auth t) = [Values_get Row1]
      \<or> (\<exists>hs. snd (constructor sch auth t) = [Values_get Row1, Values_update CellA1 RAW hs]))"
proof -
  have once: "\<exists>v. fst (executor db auth t) = [Resolve v] \<and> (v = ''success'' \<or> v = ''reject'')"
    by (simp add: executor_calls)
  have proceed: "awaitReady (fst (constructor sch auth t)) body = Some body"
    by (simp add: awaitReady_def constructor_isReady)
  have sent: "snd (constructor sch auth t) = [] \<or> snd (constructor sch auth t) = [Values_get Row1]
      \<or> (\<exists>hs. snd (constructor sch auth t) = [Values_get Row1, Values_update CellA1 RAW hs])"
    using executor_sent [of "\<lparr>schema = sch, headers = [], sheets = False, isReady = Pending\<rparr>" auth t]
    by (simp add: constructor_parts)
  from once proceed sent constructor_isReady [of sch auth t] show ?thesis by blast
qed

theorem readiness_barrier_resolves_once_witness:
  "isReady (fst (constructor sampleSchema (Some (Error ''no credentials'')) emptySheet)) = Fulfilled ''reject''
   \<and> create (fst (constructor sampleSchema (Some (Error ''no credentials'')) emptySheet)) emptySheet ''u1'' [(''name'', JString ''Al'')] =
       Some (Inl (Error ''Cannot read properties of undefined (reading 'spreadsheets')''), [])"
proof -
  let ?db = "fst (constructor sampleSchema (Some (Error ''no credentials'')) emptySheet)"
  note b = readiness_barrier_resolves_once
    [of "unboundDB sampleSchema" "Some (Error ''no credentials'')" emptySheet sampleSchema
        "createBody ?db emptySheet ''u1'' [(''name'', JString ''Al'')]"]
  from b have r: "isReady ?db = Fulfilled ''reject''" by simp
  from b have "create ?db emptySheet ''u1'' [(''name'', JString ''Al'')] = Some (createBody ?db emptySheet ''u1'' [(''name'', JString ''Al'')])"
    by (simp add: create_def)
  moreover have "createBody ?db emptySheet ''u1'' [(''name'', JString ''Al'')] = (Inl (Error ''Cannot read properties of undefined (reading 'spreadsheets')''), [])"
    by code_simp
  ultimately show ?thesis using r by simp
qed

section \<open>Required fields of \<^verbatim>\<open>create\<close>\<close>






section \<open>Scanning the rows\<close>

lemma rowJoin_tombstone: "rowJoin row = [] \<longleftrightarrow> tombstone row"
  by (cases row) (auto simp: rowJoin_def tombstone_def list_all_iff)


lemma locate_None:
  "locate sch query rows i = Inr None \<Longrightarrow> list_all (\<lambda>row. rowFiltered sch row query = Inr True) rows"
  by (induction rows arbitrary: i) (auto split: sum.splits bool.splits)

lemma convertLoop_live:
  "convertLoop sch keys query rows = Inr jsonData \<Longrightarrow>
   jsonData = map (decodeRow keys) (filter (\<lambda>row. matches sch query row \<and> \<not> tombstone row) rows)"
  by (induction rows arbitrary: jsonData)
     (auto simp: matches_def rowJoin_tombstone split: sum.splits bool.splits if_splits)

lemma convertLoopOne_live:
  "convertLoopOne sch keys query rows = Inr found \<Longrightarrow>
   found = (case filter (\<lambda>row. matches sch query row \<and> \<not> tombstone row) rows of
              [] \<Rightarrow> None | row # _ \<Rightarrow> Some (decodeRow keys row))"
  by (induction rows arbitrary: found)
     (auto simp: matches_def rowJoin_tombstone split: sum.splits bool.splits if_splits)

lemma awaitReady_fulfilled: "isReady db = Fulfilled s \<Longrightarrow> awaitReady db body = Some body"
  by (simp add: awaitReady_def)

lemma find_returns_live_rows:
  assumes "isReady db = Fulfilled s" and "find_op db t query = Some (Inr jsonData, sent)"
  shows "\<exists>data. get_response t = Inr (Some data)
     \<and> jsonData = map (decodeRow (''__ID'' # map fst (forInOrder (schema db))))
         (filter (\<lambda>row. matches (schema db) query row \<and> \<not> tombstone row) (drop 1 data))"
proof -
  from assms have b: "findBody db t query = (Inr jsonData, sent)"
    by (simp add: find_op_def awaitReady_fulfilled)
  then obtain data where d: "get_response t = Inr (Some data)"
    and c: "convertDataToJSONWithFilters (schema db) data query = Inr jsonData"
    by (auto simp: findBody_def getValues_def split: if_splits sum.splits option.splits)
  from c have "jsonData = map (decodeRow (''__ID'' # map fst (forInOrder (schema db))))
         (filter (\<lambda>row. matches (schema db) query row \<and> \<not> tombstone row) (drop 1 data))"
    unfolding convertDataToJSONWithFilters_def by (rule convertLoop_live)
  with d show ?thesis by blast
qed

lemma findOne_returns_first_live_row:
  assumes "isReady db = Fulfilled s" and "findOne db t query = Some (Inr found, sent)"
  shows "\<exists>data. get_response t = Inr (Some data)
     \<and> found = (case filter (\<lambda>row. matches (schema db) query row \<and> \<not> tombstone row) (drop 1 data) of
                  [] \<Rightarrow> None
                | row # _ \<Rightarrow> Some (decodeRow (''__ID'' # map fst (forInOrder (schema db))) row))"
proof -
  from assms have b: "findOneBody db t query = (Inr found, sent)"
    by (simp add: findOne_def awaitReady_fulfilled)
  then obtain data where d: "get_response t = Inr (Some data)"
    and c: "convertDataToJSONWithFiltersOne (schema db) data query = Inr found"
    by (auto simp: findOneBody_def getValues_def split: if_splits sum.splits option.splits)
  from c have "found = (case filter (\<lambda>row. matches (schema db) query row \<and> \<not> tombstone row) (drop 1 data) of
                  [] \<Rightarrow> None
                | row # _ \<Rightarrow> Some (decodeRow (''__ID'' # map fst (forInOrder (schema db))) row))"
    unfolding convertDataToJSONWithFiltersOne_def by (rule convertLoopOne_live)
  with d show ?thesis by blast
qed

lemma locate_empty_query: "locate sch [] (row # rows) i = Inr (Some (i, row))"
  by (simp add: rowFiltered_def forInOrder_def)

text \<open>
  Claim C2. A tombstone row is not to match any query in any operation that reads
  rows. \<^verbatim>\<open>find\<close> and \<^verbatim>\<open>findOne\<close> skip it (\<open>find_returns_live_rows\<close>,
  \<open>findOne_returns_first_live_row\<close>), but the scans of \<^verbatim>\<open>update\<close> and \<^verbatim>\<open>delete\<close> make no
  such test: on a table whose first data row is blank, \<^verbatim>\<open>find\<close> with the empty query
  returns the one live record, while the scan of \<^verbatim>\<open>update\<close> with the same query selects
  the blank row, and \<^verbatim>\<open>update\<close> writes the patch into it.
\<close>

theorem update_selects_tombstone:
  "tombstone [[], [], []]
   \<and> find_op sampleDB (serving blankedTable) [] =
       Some (Inr [[(''__ID'', JString ''id2''), (''name'', JString ''Ann''), (''age'', JNumber (Num 31))]],
             [Values_get Tab])
   \<and> locateRow (schema sampleDB) [] (Some blankedTable) = Inr (Some (1, [[], [], []]))
   \<and> update sampleDB (serving blankedTable) [] [(''name'', JString ''Bob'')] =
       Some (Inr [(''name'', JString ''Bob''), (''age'', JString [])],
             [Values_get Tab,
              Values_update (RowN 2) USER_ENTERED [[JString [], JString ''Bob'', JString []]]])"
  by code_simp

text \<open>
  Claim C7. Of the rows that satisfy a query, \<^verbatim>\<open>findOne\<close>, \<^verbatim>\<open>update\<close> and \<^verbatim>\<open>delete\<close> are
  to act on the one with the lowest row number. The scans take the first row in row
  order that passes their test (\<open>locate_Some\<close>, \<open>findOne_returns_first_live_row\<close>), but
  the test of \<^verbatim>\<open>update\<close> and \<^verbatim>\<open>delete\<close> lets a tombstone through: on a table with a
  blanked row followed by two live rows, both satisfying the empty query, \<^verbatim>\<open>findOne\<close>
  returns the record of the first live row (sheet row 3), while \<^verbatim>\<open>delete\<close> and \<^verbatim>\<open>update\<close>
  write to the blanked row (sheet row 2).
\<close>

theorem delete_acts_on_tombstone_first:
  "tombstone []
   \<and> filter (\<lambda>row. matches (schema sampleDB) [] row \<and> \<not> tombstone row) (drop 1 gapTable) =
       [[''id2'', ''Ann'', ''30''], [''id3'', ''Ann'', ''31'']]
   \<and> findOne sampleDB (serving gapTable) [] =
       Some (Inr (Some [(''__ID'', JString ''id2''), (''name'', JString ''Ann''), (''age'', JNumber (Num 30))]),
             [Values_get Tab])
   \<and> delete sampleDB (serving gapTable) [] =
       Some (Inr (), [Values_get Tab, Values_update (RowN 2) USER_ENTERED [[]]])
   \<and> update sampleDB (serving gapTable) [] [(''age'', JNumber (Num 40))] =
       Some (Inr [(''age'', JNumber (Num 40)), (''name'', JUndefined)],
             [Values_get Tab,
              Values_update (RowN 2) USER_ENTERED [[JUndefined, JUndefined, JNumber (Num 40)]]])"
  by code_simp

section \<open>Query keys outside the schema\<close>

lemma filteredBy_passes: "filteredBy sch row keys = Inr False \<longleftrightarrow> list_all (passes sch row) keys"
  by (induction sch row keys rule: filteredBy.induct)
     (auto simp: passes_def split: option.splits)

lemma matches_passes: "matches sch query row \<longleftrightarrow> list_all (passes sch row) query"
  by (simp add: matches_def rowFiltered_def filteredBy_passes list_all_forInOrder)

lemma filteredBy_readable:
  "list_all (\<lambda>(k, v). declared sch k \<or> k \<in> set inheritedNames) pre \<Longrightarrow>
   \<exists>b. filteredBy sch row pre = Inr b"
  by (induction sch row pre rule: filteredBy.induct)
     (auto simp: declared_def split: option.splits)

lemma filteredBy_append:
  "filteredBy sch row (pre @ keys) =
     (case filteredBy sch row pre of
        Inl e \<Rightarrow> Inl e
      | Inr True \<Rightarrow> Inr True
      | Inr False \<Rightarrow> filteredBy sch row keys)"
  by (induction sch row pre rule: filteredBy.induct)
     (auto split: option.splits sum.splits bool.splits)

lemma rowFiltered_undeclared:
  assumes "forInOrder query = pre @ (key, v) # post"
    and "list_all (\<lambda>(k, v). declared sch k \<or> k \<in> set inheritedNames) pre"
    and "\<not> declared sch key" and "key \<notin> set inheritedNames"
  shows "rowFiltered sch row query =
     (if matches sch pre row then Inl (TypeError ''index'') else Inr True)"
proof -
  from assms(3,4) have "filteredBy sch row ((key, v) # post) = Inl (TypeError ''index'')"
    by (simp add: declared_def)
  moreover obtain b where b: "filteredBy sch row pre = Inr b"
    using filteredBy_readable [OF assms(2)] by blast
  moreover have "matches sch pre row \<longleftrightarrow> b = False"
    using b by (simp add: matches_passes filteredBy_passes [symmetric])
  ultimately show ?thesis
    by (cases b) (simp_all add: rowFiltered_def assms(1) filteredBy_append)
qed

lemma convertLoop_undeclared:
  assumes "forInOrder query = pre @ (key, v) # post"
    and "list_all (\<lambda>(k, v). declared sch k \<or> k \<in> set inheritedNames) pre"
    and "\<not> declared sch key" and "key \<notin> set inheritedNames"
  shows "convertLoop sch keys query rows =
     (if list_ex (matches sch pre) rows then Inl (TypeError ''index'') else Inr [])"
  by (induction rows) (simp_all add: rowFiltered_undeclared [OF assms])

lemma convertLoopOne_undeclared:
  assumes "forInOrder query = pre @ (key, v) # post"
    and "list_all (\<lambda>(k, v). declared sch k \<or> k \<in> set inheritedNames) pre"
    and "\<not> declared sch key" and "key \<notin> set inheritedNames"
  shows "convertLoopOne sch keys query rows =
     (if list_ex (matches sch pre) rows then Inl (TypeError ''index'') else Inr None)"
  by (induction rows) (simp_all add: rowFiltered_undeclared [OF assms])

lemma locate_undeclared:
  assumes "forInOrder query = pre @ (key, v) # post"
    and "list_all (\<lambda>(k, v). declared sch k \<or> k \<in> set inheritedNames) pre"
    and "\<not> declared sch key" and "key \<notin> set inheritedNames"
  shows "locate sch query rows i =
     (if list_ex (matches sch pre) rows then Inl (TypeError ''index'') else Inr None)"
  by (induction rows arbitrary: i) (simp_all add: rowFiltered_undeclared [OF assms])

text \<open>
  Claim C9, as amended. Let the readiness barrier of the instance have resolved, and
  let the query hold a key that is neither \<^verbatim>\<open>__ID\<close>, nor a field of the schema, nor a name
  every object inherits; let \<open>key\<close> be the first such key in the order \<^verbatim>\<open>for ... in\<close>
  enumerates the query, and \<open>pre\<close> the keys enumerated before it. Each of \<^verbatim>\<open>find\<close>,
  \<^verbatim>\<open>findOne\<close>, \<^verbatim>\<open>update\<close> and \<^verbatim>\<open>delete\<close> then does the following, and sends no write. When
  the client was never set, it throws the TypeError of reading \<^verbatim>\<open>spreadsheets\<close> and sends
  nothing; when the fetch fails, it throws the error of the fetch. When the tab has no
  values at all, \<^verbatim>\<open>find\<close> and \<^verbatim>\<open>findOne\<close> throw the TypeError of reading \<^verbatim>\<open>length\<close>, and
  \<^verbatim>\<open>update\<close> and \<^verbatim>\<open>delete\<close> fail with the not-found error. Otherwise the matching loop
  stops at the first key a row fails, so the undeclared key is read only for a row that
  passes every key of \<open>pre\<close>: when some data row does, the operation throws the TypeError
  of reading \<^verbatim>\<open>index\<close> of \<^verbatim>\<open>undefined\<close>; when none does (or there is no data row), nothing
  is thrown by the matching, \<^verbatim>\<open>find\<close> returns no record, \<^verbatim>\<open>findOne\<close> returns none, and
  \<^verbatim>\<open>update\<close> and \<^verbatim>\<open>delete\<close> fail with the not-found error.
\<close>

theorem undeclared_query_key:
  assumes "isReady db = Fulfilled s"
    and "forInOrder query = pre @ (key, v) # post"
    and "list_all (\<lambda>(k, v). declared (schema db) k \<or> k \<in> set inheritedNames) pre"
    and "\<not> declared (schema db) key" and "key \<notin> set inheritedNames"
  shows "find_op db t query =
      Some (if \<not> sheets db then (Inl (TypeError ''spreadsheets''), [])
            else (case get_response t of
                    Inl m \<Rightarrow> Inl (TransportError m)
                  | Inr None \<Rightarrow> Inl (TypeError ''length'')
                  | Inr (Some data) \<Rightarrow>
                      if list_ex (matches (schema db) pre) (drop 1 data)
                      then Inl (TypeError ''index'') else Inr [],
                  [Values_get Tab]))
    \<and> findOne db t query =
      Some (if \<not> sheets db then (Inl (TypeError ''spreadsheets''), [])
            else (case get_response t of
                    Inl m \<Rightarrow> Inl (TransportError m)
                  | Inr None \<Rightarrow> Inl (TypeError ''length'')
                  | Inr (Some data) \<Rightarrow>
                      if list_ex (matches (schema db) pre) (drop 1 data)
                      then Inl (TypeError ''index'') else Inr None,
                  [Values_get Tab]))
    \<and> update db t query newData =
      Some (if \<not> sheets db then (Inl (TypeError ''spreadsheets''), [])
            else (case get_response t of
                    Inl m \<Rightarrow> Inl (TransportError m)
                  | Inr None \<Rightarrow> Inl (Error ''Cannot find row with this query!'')
                  | Inr (Some data) \<Rightarrow>
                      if list_ex (matches (schema db) pre) (drop 1 data)
                      then Inl (TypeError ''index'')
                      else Inl (Error ''Cannot find row with this query!''),
                  [Values_get Tab]))
    \<and> delete db t query =
      Some (if \<not> sheets db then (Inl (TypeError ''spreadsheets''), [])
            else (case get_response t of
                    Inl m \<Rightarrow> Inl (TransportError m)
                  | Inr None \<Rightarrow> Inl (Error ''Cannot find row with this query!'')
                  | Inr (Some data) \<Rightarrow>
                      if list_ex (matches (schema db) pre) (drop 1 data)
                      then Inl (TypeError ''index'')
                      else Inl (Error ''Cannot find row with this query!''),
                  [Values_get Tab]))"
proof -
  have a: "awaitReady db body = Some body" for body :: "(error + 'b) \<times> request list"
    using assms(1) by (simp add: awaitReady_def)
  note u = assms(2-5)
  have "find_op db t query =
      Some (if \<not> sheets db then (Inl (TypeError ''spreadsheets''), [])
            else (case get_response t of
                    Inl m \<Rightarrow> Inl (TransportError m)
                  | Inr None \<Rightarrow> Inl (TypeError ''length'')
                  | Inr (Some data) \<Rightarrow>
                      if list_ex (matches (schema db) pre) (drop 1 data)
                      then Inl (TypeError ''index'') else Inr [],
                  [Values_get Tab]))"
    by (simp add: find_op_def a findBody_def getValues_def convertDataToJSONWithFilters_def
          convertLoop_undeclared [OF u] split: sum.splits option.splits)
  moreover have "findOne db t query =
      Some (if \<not> sheets db then (Inl (TypeError ''spreadsheets''), [])
            else (case get_response t of
                    Inl m \<Rightarrow> Inl (TransportError m)
                  | Inr None \<Rightarrow> Inl (TypeError ''length'')
                  | Inr (Some data) \<Rightarrow>
                      if list_ex (matches (schema db) pre) (drop 1 data)
                      then Inl (TypeError ''index'') else Inr None,
                  [Values_get Tab]))"
    by (simp add: findOne_def a findOneBody_def getValues_def convertDataToJSONWithFiltersOne_def
          convertLoopOne_undeclared [OF u] split: sum.splits option.splits)
  moreover have "update db t query newData =
      Some (if \<not> sheets db then (Inl (TypeError ''spreadsheets''), [])
            else (case get_response t of
                    Inl m \<Rightarrow> Inl (TransportError m)
                  | Inr None \<Rightarrow> Inl (Error ''Cannot find row with this query!'')
                  | Inr (Some data) \<Rightarrow>
                      if list_ex (matches (schema db) pre) (drop 1 data)
                      then Inl (TypeError ''index'')
                      else Inl (Error ''Cannot find row with this query!''),
                  [Values_get Tab]))"
    by (simp add: update_def a updateBody_def getValues_def locateRow_def
          locate_undeclared [OF u] split: sum.splits option.splits)
  moreover have "delete db t query =
      Some (if \<not> sheets db then (Inl (TypeError ''spreadsheets''), [])
            else (case get_response t of
                    Inl m \<Rightarrow> Inl (TransportError m)
                  | Inr None \<Rightarrow> Inl (Error ''Cannot find row with this query!'')
                  | Inr (Some data) \<Rightarrow>
                      if list_ex (matches (schema db) pre) (drop 1 data)
                      then Inl (TypeError ''index'')
                      else Inl (Error ''Cannot find row with this query!''),
                  [Values_get Tab]))"
    by (simp add: delete_def a deleteBody_def getValues_def locateRow_def
          locate_undeclared [OF u] split: sum.splits option.splits)
  ultimately show ?thesis by blast
qed

text \<open>
  The claim as first worded fails where the undeclared key is not reached, and for a
  key that names an inherited member: no row has data to match, a row fails an earlier
  key, or the key is \<^verbatim>\<open>toString\<close>, and nothing is thrown by the matching.
\<close>

theorem undeclared_query_key_counterexample:
  "\<not> declared (schema sampleDB) ''bogus''
   \<and> find_op sampleDB (serving [[''__ID'', ''name'', ''age'']]) [(''bogus'', JString ''x'')] =
       Some (Inr [], [Values_get Tab])
   \<and> find_op sampleDB (serving sampleTable) [(''name'', JString ''Zed''), (''bogus'', JString ''x'')] =
       Some (Inr [], [Values_get Tab])
   \<and> update sampleDB (serving sampleTable) [(''name'', JString ''Zed''), (''bogus'', JString ''x'')]
         [(''age'', JNumber (Num 5))] =
       Some (Inl (Error ''Cannot find row with this query!''), [Values_get Tab])
   \<and> \<not> declared (schema sampleDB) ''toString''
   \<and> find_op sampleDB (serving sampleTable) [(''toString'', JString ''x'')] =
       Some (Inr [], [Values_get Tab])
   \<and> findOne sampleDB (serving sampleTable) [(''toString'', JString ''x'')] =
       Some (Inr None, [Values_get Tab])"
  by code_simp

theorem undeclared_query_key_witness:
  "isReady sampleDB = Fulfilled ''success''
   \<and> forInOrder [(''name'', JString ''Ann''), (''bogus'', JString ''x'')] =
       [(''name'', JString ''Ann'')] @ (''bogus'', JString ''x'') # []
   \<and> \<not> declared (schema sampleDB) ''bogus''
   \<and> ''bogus'' \<notin> set inheritedNames
   \<and> list_ex (matches (schema sampleDB) [(''name'', JString ''Ann'')]) (drop 1 sampleTable)
   \<and> find_op sampleDB (serving sampleTable) [(''name'', JString ''Ann''), (''bogus'', JString ''x'')] =
       Some (Inl (TypeError ''index''), [Values_get Tab])
   \<and> delete sampleDB (serving sampleTable) [(''name'', JString ''Ann''), (''bogus'', JString ''x'')] =
       Some (Inl (TypeError ''index''), [Values_get Tab])
   \<and> findOne sampleDB emptySheet [(''name'', JString ''Ann''), (''bogus'', JString ''x'')] =
       Some (Inl (TypeError ''length''), [Values_get Tab])"
proof -
  let ?q = "[(''name'', JString ''Ann''), (''bogus'', JString ''x'')]"
  let ?pre = "[(''name'', JString ''Ann'')]"
  have r: "isReady sampleDB = Fulfilled ''success''" and s: "sheets sampleDB"
    by (simp_all add: sampleDB_def)
  have g: "get_response (serving sampleTable) = Inr (Some sampleTable)"
    and g0: "get_response emptySheet = Inr None"
    by (simp_all add: serving_def emptySheet_def)
  have e: "forInOrder ?q = ?pre @ (''bogus'', JString ''x'') # []"
    by code_simp
  have p: "list_all (\<lambda>(k, v). declared (schema sampleDB) k \<or> k \<in> set inheritedNames) ?pre"
    by (simp add: declared_def sampleDB_def)
  have n: "\<not> declared (schema sampleDB) ''bogus''"
    by (simp add: declared_def sampleDB_def)
  have i: "''bogus'' \<notin> set inheritedNames"
    by (simp add: inheritedNames_def)
  have reached: "list_ex (matches (schema sampleDB) ?pre) (drop 1 sampleTable)"
    by code_simp
  note u = undeclared_query_key [OF r e p n i]
  from u [of "serving sampleTable"] reached s g
  have a: "find_op sampleDB (serving sampleTable) ?q = Some (Inl (TypeError ''index''), [Values_get Tab])"
    and b: "delete sampleDB (serving sampleTable) ?q = Some (Inl (TypeError ''index''), [Values_get Tab])"
    by simp_all
  from u [of emptySheet] s g0
  have c: "findOne sampleDB emptySheet ?q = Some (Inl (TypeError ''length''), [Values_get Tab])"
    by simp
  from r e n i reached a b c show ?thesis by blast
qed

section \<open>\<^verbatim>\<open>update\<close>: validation and frame\<close>















text \<open>The scan throws only on a query key that is neither declared nor inherited.\<close>

lemma filteredBy_throws:
  "filteredBy sch row keys = Inl e \<Longrightarrow>
   list_ex (\<lambda>(k, v). \<not> declared sch k \<and> k \<notin> set inheritedNames) keys"
  by (induction sch row keys rule: filteredBy.induct)
     (auto simp: declared_def split: if_splits option.splits)

lemma locate_throws:
  "locate sch query rows i = Inl e \<Longrightarrow>
   list_ex (\<lambda>(k, v). \<not> declared sch k \<and> k \<notin> set inheritedNames) query"
proof (induction rows arbitrary: i)
  case Nil
  then show ?case by simp
next
  case (Cons row rows)
  show ?case
  proof (cases "rowFiltered sch row query")
    case (Inl e')
    then have "list_ex (\<lambda>(k, v). \<not> declared sch k \<and> k \<notin> set inheritedNames) (forInOrder query)"
      unfolding rowFiltered_def by (rule filteredBy_throws)
    then show ?thesis by (simp add: list_ex_forInOrder)
  next
    case (Inr b)
    with Cons show ?thesis by (cases b) auto
  qed
qed

lemma locateRow_throws:
  "locateRow sch query allData = Inl e \<Longrightarrow>
   list_ex (\<lambda>(k, v). \<not> declared sch k \<and> k \<notin> set inheritedNames) query"
  by (auto simp: locateRow_def split: option.splits dest: locate_throws)










end
